theory Spec2Isabelle
  imports Main
begin

section \<open>Python strings\<close>

text \<open>
  A Python \<open>str\<close> is modelled as the list of bytes of its UTF-8 encoding. Substring
  search, \<open>startswith\<close>, \<open>split\<close> at a line feed and the character classes
  \<open>[^>]\<close> and \<open>[^"]\<close> give the same answers on the encoding as on the code
  points, because UTF-8 is self-synchronising; \<open>strip\<close> is the one operation of the
  analyzer that looks at code points beyond ASCII, and is written out over the encodings
  of Python's whitespace characters.
\<close>

definition NL :: char where
  "NL = CHR 0x0A"

definition SQ :: char where
  "SQ = CHR 0x27"

text \<open>\<open>s.startswith(p)\<close>.\<close>

fun startswith :: "string \<Rightarrow> string \<Rightarrow> bool" where
  "startswith s [] = True"
| "startswith [] (p # ps) = False"
| "startswith (c # cs) (p # ps) = (c = p \<and> startswith cs ps)"

text \<open>\<open>needle in hay\<close> for two strings: \<open>needle\<close> occurs at some position of \<open>hay\<close>.\<close>

fun str_in :: "string \<Rightarrow> string \<Rightarrow> bool" where
  "str_in needle [] = (needle = [])"
| "str_in needle (c # cs) = (startswith (c # cs) needle \<or> str_in needle cs)"

text \<open>\<open>s.split(sep)\<close> for a one-character separator: never the empty list.\<close>

fun split_char :: "char \<Rightarrow> string \<Rightarrow> string list" where
  "split_char sep [] = [[]]"
| "split_char sep (c # cs) =
     (if c = sep then [] # split_char sep cs
      else (case split_char sep cs of
              [] \<Rightarrow> [[c]]
            | l # ls \<Rightarrow> (c # l) # ls))"

text \<open>\<open>sep.join(xs)\<close>.\<close>

fun join :: "string \<Rightarrow> string list \<Rightarrow> string" where
  "join sep [] = []"
| "join sep [x] = x"
| "join sep (x # y # ys) = x @ sep @ join sep (y # ys)"

text \<open>
  The characters \<open>str.strip()\<close> removes are those with \<open>str.isspace()\<close>: U+0009 to
  U+000D, U+001C to U+0020, U+0085, U+00A0, U+1680, U+2000 to U+200A, U+2028, U+2029,
  U+202F, U+205F and U+3000. Their UTF-8 encodings have one, two or three bytes.
\<close>

definition is_space1 :: "char \<Rightarrow> bool" where
  "is_space1 a =
     (let n = (of_char a :: nat) in (9 \<le> n \<and> n \<le> 13) \<or> (28 \<le> n \<and> n \<le> 32))"

definition is_space2 :: "char \<Rightarrow> char \<Rightarrow> bool" where
  "is_space2 a b = (a = CHR 0xC2 \<and> (b = CHR 0x85 \<or> b = CHR 0xA0))"

definition is_space3 :: "char \<Rightarrow> char \<Rightarrow> char \<Rightarrow> bool" where
  "is_space3 a b c =
     (let n = (of_char c :: nat) in
        (a = CHR 0xE1 \<and> b = CHR 0x9A \<and> c = CHR 0x80)
      \<or> (a = CHR 0xE2 \<and> b = CHR 0x80 \<and>
           ((128 \<le> n \<and> n \<le> 138) \<or> c = CHR 0xA8 \<or> c = CHR 0xA9 \<or> c = CHR 0xAF))
      \<or> (a = CHR 0xE2 \<and> b = CHR 0x81 \<and> c = CHR 0x9F)
      \<or> (a = CHR 0xE3 \<and> b = CHR 0x80 \<and> c = CHR 0x80))"

text \<open>\<open>s.lstrip()\<close>: drop whitespace characters from the front.\<close>

fun lstrip :: "string \<Rightarrow> string" where
  "lstrip [] = []"
| "lstrip [a] = (if is_space1 a then [] else [a])"
| "lstrip [a, b] =
     (if is_space1 a then lstrip [b]
      else if is_space2 a b then []
      else [a, b])"
| "lstrip (a # b # c # s) =
     (if is_space1 a then lstrip (b # c # s)
      else if is_space2 a b then lstrip (c # s)
      else if is_space3 a b c then lstrip s
      else a # b # c # s)"

text \<open>
  \<open>s.rstrip()\<close>, on the reversed string: the first byte of the argument is the last
  byte of the string.
\<close>

fun rstrip_rev :: "string \<Rightarrow> string" where
  "rstrip_rev [] = []"
| "rstrip_rev [a] = (if is_space1 a then [] else [a])"
| "rstrip_rev [a, b] =
     (if is_space1 a then rstrip_rev [b]
      else if is_space2 b a then []
      else [a, b])"
| "rstrip_rev (a # b # c # s) =
     (if is_space1 a then rstrip_rev (b # c # s)
      else if is_space2 b a then rstrip_rev (c # s)
      else if is_space3 c b a then rstrip_rev s
      else a # b # c # s)"

definition strip :: "string \<Rightarrow> string" where
  "strip s = rev (rstrip_rev (rev (lstrip s)))"

text \<open>\<open>str(n)\<close> for a non-negative integer: its decimal digits.\<close>

definition digit :: "nat \<Rightarrow> char" where
  "digit d = char_of (48 + d)"

function str_nat :: "nat \<Rightarrow> string" where
  "str_nat n = (if n < 10 then [digit n] else str_nat (n div 10) @ [digit (n mod 10)])"
  by pat_completeness auto
termination
  by (relation "measure id") auto

declare str_nat.simps [simp del]

section \<open>The regular expressions of the analyzer\<close>

text \<open>
  The analyzer's three patterns, \<open><StackPanel[^>]*PROP=\<close>, \<open>x:Class="([^"]+)"\<close> and
  \<open>Source="([^"]+)"\<close>, are built from literal characters, \<open>[^c]*\<close> and one group
  \<open>([^c]+)\<close>. \<open>re_compile\<close> reads exactly these forms from the pattern text; every
  other character stands for itself, as in Python's \<open>re\<close> for the characters that
  occur in the three patterns.
\<close>

datatype rx = Chr char | NotStar char | NotPlusGroup char

function re_compile :: "string \<Rightarrow> rx list" where
  "re_compile s =
     (if s = [] then []
      else if 7 \<le> length s \<and> take 3 s = ''([^'' \<and> take 3 (drop 4 s) = '']+)''
        then NotPlusGroup (s ! 3) # re_compile (drop 7 s)
      else if 5 \<le> length s \<and> take 2 s = ''[^'' \<and> take 2 (drop 3 s) = '']*''
        then NotStar (s ! 2) # re_compile (drop 5 s)
      else Chr (hd s) # re_compile (tl s))"
  by pat_completeness auto
termination
  by (relation "measure length") auto

declare re_compile.simps [simp del]

text \<open>The first \<open>Some\<close> of a list of attempts: the order of backtracking.\<close>

fun first_some :: "'a option list \<Rightarrow> 'a option" where
  "first_some [] = None"
| "first_some (None # xs) = first_some xs"
| "first_some (Some x # xs) = Some x"

text \<open>
  A match of the pattern at the very start of the text: the text of the group (empty
  when the pattern has none) and the text left after the match. The repetitions are
  greedy: the longest run is tried first, then shorter ones.
\<close>

fun rx_here :: "rx list \<Rightarrow> string \<Rightarrow> (string \<times> string) option" where
  "rx_here [] s = Some ([], s)"
| "rx_here (Chr c # r) s =
     (case s of
        [] \<Rightarrow> None
      | x # xs \<Rightarrow> if x = c then rx_here r xs else None)"
| "rx_here (NotStar c # r) s =
     first_some (map (\<lambda>k. rx_here r (drop k s))
       (rev [0 ..< Suc (length (takeWhile (\<lambda>x. x \<noteq> c) s))]))"
| "rx_here (NotPlusGroup c # r) s =
     first_some (map (\<lambda>k. map_option (\<lambda>m. (take k s, snd m)) (rx_here r (drop k s)))
       (rev [1 ..< Suc (length (takeWhile (\<lambda>x. x \<noteq> c) s))]))"

text \<open>\<open>re.search\<close>: the match at the leftmost position that has one.\<close>

fun rx_search :: "rx list \<Rightarrow> string \<Rightarrow> (string \<times> string) option" where
  "rx_search r [] = rx_here r []"
| "rx_search r (x # xs) =
     (case rx_here r (x # xs) of
        Some m \<Rightarrow> Some m
      | None \<Rightarrow> rx_search r xs)"

definition re_search :: "string \<Rightarrow> string \<Rightarrow> (string \<times> string) option" where
  "re_search pattern s = rx_search (re_compile pattern) s"

text \<open>
  \<open>re.findall\<close> for a pattern with one group whose matches are never empty (both
  patterns the analyzer gives it start with a literal character): the groups of the
  successive non-overlapping matches. \<open>skip\<close> counts the characters of the last match
  still to be passed over.
\<close>

fun rx_findall :: "rx list \<Rightarrow> nat \<Rightarrow> string \<Rightarrow> string list" where
  "rx_findall r skip [] = []"
| "rx_findall r (Suc skip) (x # xs) = rx_findall r skip xs"
| "rx_findall r 0 (x # xs) =
     (case rx_here r (x # xs) of
        Some m \<Rightarrow> fst m # rx_findall r (length xs - length (snd m)) xs
      | None \<Rightarrow> rx_findall r 0 xs)"

definition re_findall :: "string \<Rightarrow> string \<Rightarrow> string list" where
  "re_findall pattern s = rx_findall (re_compile pattern) 0 s"

section \<open>Exceptions\<close>

text \<open>
  The exceptions the analyzer can meet. All are subclasses of \<open>Exception\<close>;
  \<open>except ET.ParseError\<close> catches the first only. \<open>str_exc\<close> is \<open>str(e)\<close>, the text
  an f-string writes for \<open>{e}\<close>.
\<close>

datatype py_exception =
    ParseError string
  | OSError string
  | UnicodeDecodeError string
  | ValueError string
  | EOFError

fun str_exc :: "py_exception \<Rightarrow> string" where
  "str_exc (ParseError m) = m"
| "str_exc (OSError m) = m"
| "str_exc (UnicodeDecodeError m) = m"
| "str_exc (ValueError m) = m"
| "str_exc EOFError = []"

section \<open>XML elements\<close>

text \<open>
  What \<open>xml.etree.ElementTree\<close> hands to the analyzer: an element has a tag, its
  attributes, its text (\<open>None\<close> when the element has none) and its children in
  document order.
\<close>

datatype element =
  Element (elem_tag: string) (elem_attrib: "(string \<times> string) list")
    (elem_text: "string option") (elem_children: "element list")

text \<open>All elements below an element, in document order: what the path \<open>.//\<close> walks.\<close>

fun descendants :: "element \<Rightarrow> element list" where
  "descendants (Element t a x cs) = concat (map (\<lambda>c. c # descendants c) cs)"

text \<open>\<open>e.findall(".//tag")\<close>, \<open>e.findall("tag")\<close>, \<open>e.find(".//tag")\<close>, \<open>e.get(key, default)\<close>.\<close>

definition findall_descendants :: "element \<Rightarrow> string \<Rightarrow> element list" where
  "findall_descendants e t = filter (\<lambda>d. elem_tag d = t) (descendants e)"

definition findall_children :: "element \<Rightarrow> string \<Rightarrow> element list" where
  "findall_children e t = filter (\<lambda>d. elem_tag d = t) (elem_children e)"

definition find_descendant :: "element \<Rightarrow> string \<Rightarrow> element option" where
  "find_descendant e t =
     (case findall_descendants e t of
        [] \<Rightarrow> None
      | d # ds \<Rightarrow> Some d)"

definition elem_get :: "element \<Rightarrow> string \<Rightarrow> string \<Rightarrow> string" where
  "elem_get e k d =
     (case map_of (elem_attrib e) k of
        None \<Rightarrow> d
      | Some v \<Rightarrow> v)"

section \<open>The file system\<close>

text \<open>
  A file is what the analyzer can observe of it: the result of
  \<open>read_text(encoding='utf-8')\<close> (the decoded text, or the exception raised on opening or
  decoding) and the result of \<open>ET.parse\<close> (the root element, or the exception). A
  directory lists its entries in the order in which the operating system enumerates
  them; the tree is only read, never written.
\<close>

record regular_file =
  file_text :: "py_exception + string"
  file_xml :: "py_exception + element"

datatype node = File regular_file | Dir "(string \<times> node) list"

text \<open>
  The whole file system: the root directory, and the working directory of the process
  as the names from the root down to it.
\<close>

record filesystem =
  fs_root :: node
  cwd :: "string list"

fun child :: "node \<Rightarrow> string \<Rightarrow> node option" where
  "child (File f) n = None"
| "child (Dir es) n = map_of es n"

fun node_at :: "node \<Rightarrow> string list \<Rightarrow> node option" where
  "node_at n [] = Some n"
| "node_at n (c # cs) =
     (case child n c of
        None \<Rightarrow> None
      | Some m \<Rightarrow> node_at m cs)"

text \<open>
  Path resolution as the operating system does it (no symbolic links): from the
  directory \<open>cur\<close>, given by its names from the root, follow the components. Each
  component, also an empty one, \<open>.\<close> or \<open>..\<close>, needs the place reached so far to be a
  directory; \<open>..\<close> of the root is the root.
\<close>

fun walk :: "node \<Rightarrow> string list \<Rightarrow> string list \<Rightarrow> node option" where
  "walk root cur [] = node_at root cur"
| "walk root cur (c # cs) =
     (case node_at root cur of
        Some (Dir es) \<Rightarrow>
          walk root
            (if c = [] \<or> c = ''.'' then cur
             else if c = ''..'' then butlast cur
             else cur @ [c]) cs
      | _ \<Rightarrow> None)"

text \<open>
  \<open>os.path.exists(s)\<close> for the string \<open>s\<close> as typed: the empty string names nothing, a
  leading slash starts at the root, and a doubled or trailing slash is an empty
  component.
\<close>

definition os_path_exists :: "filesystem \<Rightarrow> string \<Rightarrow> bool" where
  "os_path_exists fs s =
     (s \<noteq> [] \<and>
      walk (fs_root fs) (if hd s = CHR ''/'' then [] else cwd fs) (split_char CHR ''/'' s)
        \<noteq> None)"

section \<open>pathlib paths\<close>

text \<open>
  A \<open>pathlib.Path\<close> of a POSIX system: whether it starts at the root, and its parts.
  The constructor drops empty components and \<open>.\<close> and keeps \<open>..\<close>. (A path that begins
  with exactly two slashes keeps them in Python; it is read here as one that begins with
  one.)
\<close>

record path =
  anchored :: bool
  parts :: "string list"

definition Path :: "string \<Rightarrow> path" where
  "Path s =
     \<lparr>anchored = startswith s ''/'',
      parts = filter (\<lambda>c. c \<noteq> [] \<and> c \<noteq> ''.'') (split_char CHR ''/'' s)\<rparr>"

text \<open>\<open>p / s\<close>: an absolute right-hand side replaces the left-hand side.\<close>

definition joinpath :: "path \<Rightarrow> string \<Rightarrow> path" where
  "joinpath p s =
     (let q = Path s in
      if anchored q then q
      else \<lparr>anchored = anchored p, parts = parts p @ parts q\<rparr>)"

text \<open>\<open>p.name\<close>, \<open>str(p)\<close>, \<open>p.stem\<close>.\<close>

definition path_name :: "path \<Rightarrow> string" where
  "path_name p = (if parts p = [] then [] else last (parts p))"

definition path_str :: "path \<Rightarrow> string" where
  "path_str p =
     (if anchored p then ''/'' @ join ''/'' (parts p)
      else if parts p = [] then ''.''
      else join ''/'' (parts p))"

definition rfind :: "char \<Rightarrow> string \<Rightarrow> nat option" where
  "rfind c s =
     (if c \<in> set s then Some (length s - 1 - length (takeWhile (\<lambda>x. x \<noteq> c) (rev s)))
      else None)"

definition path_stem :: "path \<Rightarrow> string" where
  "path_stem p =
     (let name = path_name p in
      case rfind CHR ''.'' name of
        None \<Rightarrow> name
      | Some i \<Rightarrow> if 0 < i \<and> i < length name - 1 then take i name else name)"

text \<open>
  \<open>p.relative_to(other)\<close>: the parts of \<open>p\<close> after those of \<open>other\<close>, or \<open>ValueError\<close>
  (with the message of Python 3.12) when \<open>p\<close> is not below \<open>other\<close>.
\<close>

definition relative_to :: "path \<Rightarrow> path \<Rightarrow> py_exception + string list" where
  "relative_to p other =
     (if anchored p = anchored other \<and> take (length (parts other)) (parts p) = parts other
      then Inr (drop (length (parts other)) (parts p))
      else Inl (ValueError ([SQ] @ path_str p @ [SQ] @ '' is not in the subpath of ''
                  @ [SQ] @ path_str other @ [SQ])))"

text \<open>What the operating system finds at a path, if anything.\<close>

definition stat :: "filesystem \<Rightarrow> path \<Rightarrow> node option" where
  "stat fs p = walk (fs_root fs) (if anchored p then [] else cwd fs) (parts p)"

definition exists :: "filesystem \<Rightarrow> path \<Rightarrow> bool" where
  "exists fs p = (stat fs p \<noteq> None)"

definition is_file :: "filesystem \<Rightarrow> path \<Rightarrow> bool" where
  "is_file fs p =
     (case stat fs p of
        Some (File f) \<Rightarrow> True
      | _ \<Rightarrow> False)"

text \<open>
  \<open>p.read_text(encoding='utf-8')\<close> and \<open>ET.parse(p).getroot()\<close>. Opening a missing
  path or a directory raises an \<open>OSError\<close>, whose text ends in the path between quotes.
\<close>

definition open_error :: "string \<Rightarrow> path \<Rightarrow> py_exception" where
  "open_error what p = OSError (what @ '': '' @ [SQ] @ path_str p @ [SQ])"

definition read_text :: "filesystem \<Rightarrow> path \<Rightarrow> py_exception + string" where
  "read_text fs p =
     (case stat fs p of
        None \<Rightarrow> Inl (open_error ''[Errno 2] No such file or directory'' p)
      | Some (Dir es) \<Rightarrow> Inl (open_error ''[Errno 21] Is a directory'' p)
      | Some (File f) \<Rightarrow> file_text f)"

definition et_parse :: "filesystem \<Rightarrow> path \<Rightarrow> py_exception + element" where
  "et_parse fs p =
     (case stat fs p of
        None \<Rightarrow> Inl (open_error ''[Errno 2] No such file or directory'' p)
      | Some (Dir es) \<Rightarrow> Inl (open_error ''[Errno 21] Is a directory'' p)
      | Some (File f) \<Rightarrow> file_xml f)"

text \<open>
  Shell-style matching of a name against a pattern in which \<open>*\<close> stands for any run of
  characters, also an empty one. The analyzer's patterns use no other wildcard.
  Matching is case-sensitive, as on a POSIX system, and a leading dot is not special.
\<close>

fun fnmatch :: "string \<Rightarrow> string \<Rightarrow> bool" where
  "fnmatch [] [] = True"
| "fnmatch [] (c # cs) = False"
| "fnmatch (p # ps) [] = (p = CHR ''*'' \<and> fnmatch ps [])"
| "fnmatch (p # ps) (c # cs) =
     (if p = CHR ''*'' then fnmatch ps (c # cs) \<or> fnmatch (p # ps) cs
      else p = c \<and> fnmatch ps cs)"

definition child_path :: "path \<Rightarrow> string \<Rightarrow> path" where
  "child_path p n = p\<lparr>parts := parts p @ [n]\<rparr>"

text \<open>
  \<open>p.glob(pattern)\<close> for a pattern of one component: the entries of the directory
  \<open>p\<close> whose names match, in listing order; nothing when \<open>p\<close> is not a directory.
\<close>

definition glob :: "filesystem \<Rightarrow> path \<Rightarrow> string \<Rightarrow> path list" where
  "glob fs p pattern =
     (case stat fs p of
        Some (Dir es) \<Rightarrow> map (child_path p) (filter (fnmatch pattern) (map fst es))
      | _ \<Rightarrow> [])"

text \<open>
  \<open>p.rglob(pattern)\<close>: the matching entries of \<open>p\<close> itself, then those of each
  subdirectory in turn, each subtree before the next (the order of Python 3.8 to 3.12).
\<close>

fun rglob_node :: "string \<Rightarrow> path \<Rightarrow> node \<Rightarrow> path list" where
  "rglob_node pattern p (File f) = []"
| "rglob_node pattern p (Dir es) =
     map (child_path p) (filter (fnmatch pattern) (map fst es))
     @ concat (map (\<lambda>e. rglob_node pattern (child_path p (fst e)) (snd e)) es)"

definition rglob :: "filesystem \<Rightarrow> path \<Rightarrow> string \<Rightarrow> path list" where
  "rglob fs p pattern =
     (case stat fs p of
        Some n \<Rightarrow> rglob_node pattern p n
      | None \<Rightarrow> [])"

section \<open>The analyzer\<close>

text \<open>
  The object of class \<open>AvaloniaProjectAnalyzer\<close>: the project path and the three lists
  of findings. \<open>printed\<close> is added to it: the arguments of the calls of \<open>print\<close> made so
  far, one entry for each call, so that what the methods write to standard output is
  part of the state they return.
\<close>

record analyzer =
  project_path :: path
  issues :: "string list"
  warnings :: "string list"
  info :: "string list"
  printed :: "string list"

definition AvaloniaProjectAnalyzer :: "string \<Rightarrow> analyzer" where
  "AvaloniaProjectAnalyzer p =
     \<lparr>project_path = Path p, issues = [], warnings = [], info = [], printed = []\<rparr>"

definition add_issue :: "string \<Rightarrow> analyzer \<Rightarrow> analyzer" where
  "add_issue m a = a\<lparr>issues := issues a @ [m]\<rparr>"

definition add_warning :: "string \<Rightarrow> analyzer \<Rightarrow> analyzer" where
  "add_warning m a = a\<lparr>warnings := warnings a @ [m]\<rparr>"

definition add_info :: "string \<Rightarrow> analyzer \<Rightarrow> analyzer" where
  "add_info m a = a\<lparr>info := info a @ [m]\<rparr>"

definition py_print :: "string \<Rightarrow> analyzer \<Rightarrow> analyzer" where
  "py_print m a = a\<lparr>printed := printed a @ [m]\<rparr>"

text \<open>The pictographs of the messages, as the bytes of their UTF-8 encodings.\<close>

definition utf8 :: "nat list \<Rightarrow> string" where
  "utf8 bs = map char_of bs"

definition magnifier :: string where "magnifier = utf8 [0xF0, 0x9F, 0x94, 0x8D]"
definition folder :: string where "folder = utf8 [0xF0, 0x9F, 0x93, 0x81]"
definition wrench :: string where "wrench = utf8 [0xF0, 0x9F, 0x94, 0xA7]"
definition page :: string where "page = utf8 [0xF0, 0x9F, 0x93, 0x84]"
definition picture :: string where "picture = utf8 [0xF0, 0x9F, 0x96, 0xBC, 0xEF, 0xB8, 0x8F]"
definition rocket :: string where "rocket = utf8 [0xF0, 0x9F, 0x9A, 0x80]"
definition hammer :: string where "hammer = utf8 [0xF0, 0x9F, 0x94, 0xA8]"
definition chart :: string where "chart = utf8 [0xF0, 0x9F, 0x93, 0x8A]"
definition cross :: string where "cross = utf8 [0xE2, 0x9D, 0x8C]"
definition warning_sign :: string where "warning_sign = utf8 [0xE2, 0x9A, 0xA0, 0xEF, 0xB8, 0x8F]"
definition check_mark :: string where "check_mark = utf8 [0xE2, 0x9C, 0x85]"
definition target :: string where "target = utf8 [0xF0, 0x9F, 0x8E, 0xAF]"

subsection \<open>\<open>check_project_structure\<close>\<close>

definition required_files :: "string list" where
  "required_files = [''*.csproj'', ''App.axaml'', ''App.axaml.cs'']"

text \<open>The body of the loop over \<open>required_files\<close>.\<close>

definition check_required_file :: "filesystem \<Rightarrow> analyzer \<Rightarrow> string \<Rightarrow> analyzer" where
  "check_required_file fs a pattern =
     (case glob fs (project_path a) pattern of
        [] \<Rightarrow> add_issue (''Missing required file: '' @ pattern) a
      | m # ms \<Rightarrow> add_info (''Found: '' @ path_name m) a)"

definition check_project_structure :: "filesystem \<Rightarrow> analyzer \<Rightarrow> analyzer" where
  "check_project_structure fs a =
     (let a1 = py_print (folder @ '' Checking project structure...'') a;
          a2 = foldl (check_required_file fs) a1 required_files;
          views_folder = joinpath (project_path a) ''Views'';
          a3 = (if \<not> exists fs views_folder
                then add_warning ''Views folder doesn't exist'' a2
                else add_info (''Found '' @ str_nat (length (glob fs views_folder ''*.axaml''))
                                 @ '' view files'') a2);
          controls_folder = joinpath (project_path a) ''Controls''
      in if exists fs controls_folder
         then add_info (''Found '' @ str_nat (length (glob fs controls_folder ''*.axaml''))
                          @ '' control files'') a3
         else a3)"

subsection \<open>\<open>check_csproj_file\<close>\<close>

text \<open>
  The list \<open>avalonia_packages\<close>: for each \<open>ItemGroup\<close> below the root, its
  \<open>PackageReference\<close> children whose \<open>Include\<close> contains \<open>Avalonia\<close>.
\<close>

definition avalonia_packages :: "element \<Rightarrow> string list" where
  "avalonia_packages root =
     concat (map (\<lambda>item_group.
         map (\<lambda>package_ref. elem_get package_ref ''Include'' [] @ '' v''
                              @ elem_get package_ref ''Version'' ''Unknown'')
           (filter (\<lambda>package_ref. str_in ''Avalonia'' (elem_get package_ref ''Include'' []))
              (findall_children item_group ''PackageReference'')))
       (findall_descendants root ''ItemGroup''))"

text \<open>
  A method that an exception can leave returns \<open>Inl\<close> of the exception and of the
  analyzer as it was when the exception was raised, or \<open>Inr\<close> of the analyzer at the
  normal return.
\<close>

definition check_csproj_file :: "filesystem \<Rightarrow> analyzer \<Rightarrow> (py_exception \<times> analyzer) + analyzer" where
  "check_csproj_file fs a =
     (let a1 = py_print (wrench @ '' Checking project file...'') a in
      case glob fs (project_path a) ''*.csproj'' of
        [] \<Rightarrow> Inr (add_issue ''No .csproj file found'' a1)
      | csproj_path # rest \<Rightarrow>
          (case et_parse fs csproj_path of
             Inl (ParseError m) \<Rightarrow> Inr (add_issue (''Failed to parse .csproj file: '' @ m) a1)
           | Inl e \<Rightarrow> Inl (e, a1)
           | Inr root \<Rightarrow>
               (let pkgs = avalonia_packages root;
                    a2 = (if pkgs \<noteq> []
                          then foldl (\<lambda>b pkg. add_info (''  - '' @ pkg) b)
                                 (add_info ''Avalonia packages:'' a1) pkgs
                          else add_issue ''No Avalonia packages found in project file'' a1)
                in case find_descendant root ''UseAvalonia'' of
                     None \<Rightarrow> Inr (add_warning ''UseAvalonia property not found in project file'' a2)
                   | Some use_avalonia \<Rightarrow>
                       if elem_text use_avalonia \<noteq> Some ''true''
                       then Inr (add_issue ''UseAvalonia property is not set to true'' a2)
                       else Inr a2)))"

subsection \<open>\<open>check_single_xaml_file\<close> and its helpers\<close>

fun find_line_from :: "nat \<Rightarrow> string list \<Rightarrow> string \<Rightarrow> nat" where
  "find_line_from i [] search_term = 0"
| "find_line_from i (line # lines) search_term =
     (if str_in search_term line then i else find_line_from (Suc i) lines search_term)"

definition find_line_number :: "string \<Rightarrow> string \<Rightarrow> nat" where
  "find_line_number content search_term = find_line_from 1 (split_char NL content) search_term"

definition get_expected_class_name :: "path \<Rightarrow> path \<Rightarrow> py_exception + string" where
  "get_expected_class_name root xaml_file =
     (case relative_to xaml_file root of
        Inl e \<Rightarrow> Inl e
      | Inr relative_parts \<Rightarrow>
          (let dirs = butlast relative_parts;
               class_name = path_stem xaml_file;
               namespace = (if dirs \<noteq> [] then ''JobFinderApp.Desktop.'' @ join ''.'' dirs
                            else ''JobFinderApp.Desktop'')
           in Inr (namespace @ ''.'' @ class_name)))"

definition typos :: "(string \<times> string) list" where
  "typos =
     [(''ColumnDefinin'', ''ColumnDefinitions''),
      (''RowDefinin'', ''RowDefinitions''),
      (''MultiClass'', ''Classes'')]"

definition typo_issue :: "string \<Rightarrow> nat \<Rightarrow> string \<Rightarrow> string \<Rightarrow> string" where
  "typo_issue name line_num typo correct =
     name @ '':'' @ str_nat line_num @ '': Found '' @ [SQ] @ typo @ [SQ]
       @ '' (should be '' @ [SQ] @ correct @ [SQ] @ '')''"

definition check_typo :: "string \<Rightarrow> string \<Rightarrow> analyzer \<Rightarrow> string \<times> string \<Rightarrow> analyzer" where
  "check_typo name content a t =
     (if str_in (fst t) content
      then add_issue (typo_issue name (find_line_number content (fst t)) (fst t) (snd t)) a
      else a)"

definition unsupported_props :: "string list" where
  "unsupported_props = [''ColumnGap'', ''RowGap'', ''Padding'']"

definition check_unsupported_prop :: "string \<Rightarrow> string \<Rightarrow> analyzer \<Rightarrow> string \<Rightarrow> analyzer" where
  "check_unsupported_prop name content a prop =
     (let pattern = ''<StackPanel[^>]*'' @ prop @ ''='' in
      if re_search pattern content \<noteq> None
      then (let line_num = find_line_number content pattern in
            if prop = ''Padding''
            then add_issue (name @ '':'' @ str_nat line_num
                   @ '': StackPanel doesn't support Padding (use Border instead)'') a
            else add_issue (name @ '':'' @ str_nat line_num @ '': '' @ prop
                   @ '' not supported in Avalonia 11.0.7 (use Margin instead)'') a)
      else a)"

definition x_class_pattern :: string where
  \<open>x_class_pattern = ''x:Class="([^"]+)"''\<close>

definition check_x_class :: "path \<Rightarrow> string \<Rightarrow> analyzer \<Rightarrow> analyzer" where
  "check_x_class xaml_file content a =
     (case re_search x_class_pattern content of
        None \<Rightarrow> a
      | Some class_match \<Rightarrow>
          (let declared_class = fst class_match in
           case get_expected_class_name (project_path a) xaml_file of
             Inl e \<Rightarrow> add_issue (path_name xaml_file @ '': Failed to read file - '' @ str_exc e) a
           | Inr expected_class \<Rightarrow>
               if expected_class \<noteq> [] \<and> declared_class \<noteq> expected_class
               then add_warning (path_name xaml_file @ '': x:Class '' @ [SQ] @ declared_class
                      @ [SQ] @ '' might not match file location (expected '' @ [SQ]
                      @ expected_class @ [SQ] @ '')'') a
               else a))"

definition check_single_xaml_file :: "filesystem \<Rightarrow> path \<Rightarrow> analyzer \<Rightarrow> analyzer" where
  "check_single_xaml_file fs xaml_file a =
     (case read_text fs xaml_file of
        Inl e \<Rightarrow> add_issue (path_name xaml_file @ '': Failed to read file - '' @ str_exc e) a
      | Inr content \<Rightarrow>
          if strip content = [] then add_issue (path_name xaml_file @ '': File is empty'') a
          else if \<not> startswith (strip content) ''<''
            then add_issue (path_name xaml_file @ '': No root element'') a
          else
            (let a1 = foldl (check_typo (path_name xaml_file) content) a typos;
                 a2 = foldl (check_unsupported_prop (path_name xaml_file) content) a1
                        unsupported_props
             in check_x_class xaml_file content a2))"

subsection \<open>\<open>check_xaml_files\<close>\<close>

definition check_xaml_files :: "filesystem \<Rightarrow> analyzer \<Rightarrow> analyzer" where
  "check_xaml_files fs a =
     (let a1 = py_print (page @ '' Checking XAML files...'') a;
          xaml_files = rglob fs (project_path a) ''*.axaml'';
          a2 = add_info (''Found '' @ str_nat (length xaml_files) @ '' XAML files'') a1
      in foldl (\<lambda>b xaml_file. check_single_xaml_file fs xaml_file b) a2 xaml_files)"

subsection \<open>\<open>check_resources\<close>\<close>

definition check_style_reference :: "string \<Rightarrow> analyzer \<Rightarrow> path \<Rightarrow> analyzer" where
  "check_style_reference app_content a style_file =
     (if \<not> str_in (''Styles/'' @ path_name style_file) app_content
      then add_warning (''Style file '' @ path_name style_file
             @ '' not referenced in App.axaml'') a
      else a)"

definition check_resources :: "filesystem \<Rightarrow> analyzer \<Rightarrow> (py_exception \<times> analyzer) + analyzer" where
  "check_resources fs a =
     (let a1 = py_print (picture @ ''  Checking resources...'') a;
          assets_folder = joinpath (project_path a) ''Assets'';
          a2 = (if exists fs assets_folder
                then add_info (''Found ''
                       @ str_nat (length (filter (is_file fs) (rglob fs assets_folder ''*'')))
                       @ '' asset files'') a1
                else add_warning ''No Assets folder found'' a1);
          styles_folder = joinpath (project_path a) ''Styles''
      in if exists fs styles_folder
         then (let style_files = glob fs styles_folder ''*.axaml'';
                   a3 = add_info (''Found '' @ str_nat (length style_files) @ '' style files'') a2;
                   app_xaml = joinpath (project_path a) ''App.axaml''
               in if exists fs app_xaml
                  then (case read_text fs app_xaml of
                          Inl e \<Rightarrow> Inl (e, a3)
                        | Inr app_content \<Rightarrow>
                            Inr (foldl (check_style_reference app_content) a3 style_files))
                  else Inr a3)
         else Inr (add_info ''No Styles folder found'' a2))"

subsection \<open>\<open>check_app_files\<close>\<close>

definition source_pattern :: string where
  \<open>source_pattern = ''Source="([^"]+)"''\<close>

definition missing_style_issue :: "string \<Rightarrow> string" where
  "missing_style_issue style_path = ''App.axaml references missing style: '' @ style_path"

definition check_style_include :: "filesystem \<Rightarrow> analyzer \<Rightarrow> string \<Rightarrow> analyzer" where
  "check_style_include fs a style_path =
     (if \<not> exists fs (joinpath (project_path a) style_path)
      then add_issue (missing_style_issue style_path) a
      else a)"

definition check_app_xaml :: "filesystem \<Rightarrow> analyzer \<Rightarrow> analyzer" where
  "check_app_xaml fs a =
     (let app_xaml = joinpath (project_path a) ''App.axaml'' in
      if exists fs app_xaml
      then (case read_text fs app_xaml of
              Inl e \<Rightarrow> add_issue (''Failed to read App.axaml: '' @ str_exc e) a
            | Inr content \<Rightarrow>
                (let a1 = (if strip content = [] then add_issue ''App.axaml is empty'' a
                           else if \<not> str_in ''Application'' content
                             then add_issue
                               ''App.axaml doesn't contain Application root element'' a
                           else add_info ''App.axaml looks valid'' a)
                 in if str_in ''StyleInclude'' content
                    then foldl (check_style_include fs) a1 (re_findall source_pattern content)
                    else a1))
      else add_issue ''App.axaml not found'' a)"

definition check_app_cs :: "filesystem \<Rightarrow> analyzer \<Rightarrow> analyzer" where
  "check_app_cs fs a =
     (let app_cs = joinpath (project_path a) ''App.axaml.cs'' in
      if exists fs app_cs
      then (case read_text fs app_cs of
              Inl e \<Rightarrow> add_issue (''Failed to read App.axaml.cs: '' @ str_exc e) a
            | Inr content \<Rightarrow>
                add_info ''App.axaml.cs exists''
                  (if \<not> str_in ''InitializeComponent'' content
                   then add_warning ''App.axaml.cs doesn't call InitializeComponent()'' a
                   else a))
      else add_issue ''App.axaml.cs not found'' a)"

definition check_app_files :: "filesystem \<Rightarrow> analyzer \<Rightarrow> analyzer" where
  "check_app_files fs a =
     check_app_cs fs (check_app_xaml fs (py_print (rocket @ '' Checking application files...'') a))"

subsection \<open>\<open>check_build_artifacts\<close>\<close>

definition check_build_artifacts :: "filesystem \<Rightarrow> analyzer \<Rightarrow> analyzer" where
  "check_build_artifacts fs a =
     (let a1 = py_print (hammer @ '' Checking build artifacts...'') a;
          obj_folder = joinpath (project_path a) ''obj'';
          a2 = (if exists fs obj_folder
                then (let generated_files = rglob fs obj_folder ''*.g.cs'';
                          b = (if generated_files \<noteq> []
                               then add_info (''Found '' @ str_nat (length generated_files)
                                      @ '' generated code files'') a1
                               else add_warning
                                 ''No generated code files found (XAML might not be compiling)'' a1)
                      in if rglob fs obj_folder ''*avalonia*'' \<noteq> []
                         then add_info ''Avalonia build cache exists'' b
                         else b)
                else add_warning ''No obj folder found (project hasn't been built)'' a1);
          bin_folder = joinpath (project_path a) ''bin''
      in if exists fs bin_folder
         then (let exe_files = rglob fs bin_folder ''*.exe'' in
               if exe_files \<noteq> []
               then add_info (''Found '' @ str_nat (length exe_files) @ '' executable files'') a2
               else a2)
         else add_warning ''No bin folder found'' a2)"

subsection \<open>\<open>print_results\<close>\<close>

text \<open>The lines of one group: \<open>enumerate(xs, 1)\<close> numbers the findings from one.\<close>

definition numbered :: "string list \<Rightarrow> string list" where
  "numbered xs =
     map (\<lambda>ix. ''   '' @ str_nat (fst ix) @ ''. '' @ snd ix) (zip [1 ..< Suc (length xs)] xs)"

definition print_group :: "string \<Rightarrow> string list \<Rightarrow> string list" where
  "print_group title xs =
     (if xs \<noteq> [] then ([NL] @ title @ '' ('' @ str_nat (length xs) @ ''):'') # numbered xs
      else [])"

definition report_lines :: "analyzer \<Rightarrow> string list" where
  "report_lines a =
     [[NL] @ replicate 60 CHR ''='', chart @ '' ANALYSIS RESULTS'', replicate 60 CHR ''='']
     @ print_group (cross @ '' CRITICAL ISSUES'') (issues a)
     @ print_group (warning_sign @ ''  WARNINGS'') (warnings a)
     @ print_group (check_mark @ '' INFO'') (info a)
     @ [[NL] @ target @ '' SUMMARY:'',
        ''   Issues: '' @ str_nat (length (issues a)) @ '' | Warnings: ''
          @ str_nat (length (warnings a)) @ '' | Info: '' @ str_nat (length (info a))]
     @ (if issues a \<noteq> []
        then [[NL] @ wrench @ '' RECOMMENDED ACTIONS:'',
              ''   1. Fix all critical issues first'',
              ''   2. Address warnings that might affect functionality'',
              ''   3. Clean and rebuild project'',
              ''   4. Test application startup'']
        else [])"

definition print_results :: "analyzer \<Rightarrow> analyzer" where
  "print_results a = a\<lparr>printed := printed a @ report_lines a\<rparr>"

subsection \<open>\<open>analyze\<close>\<close>

definition analyze :: "filesystem \<Rightarrow> analyzer \<Rightarrow> (py_exception \<times> analyzer) + analyzer" where
  "analyze fs a =
     (let a1 = py_print (replicate 60 CHR ''='')
                 (py_print (magnifier @ '' AVALONIA PROJECT DIAGNOSTIC ANALYSIS'') a);
          a2 = check_project_structure fs a1
      in case check_csproj_file fs a2 of
           Inl x \<Rightarrow> Inl x
         | Inr a3 \<Rightarrow>
             (case check_resources fs (check_xaml_files fs a3) of
                Inl x \<Rightarrow> Inl x
              | Inr a5 \<Rightarrow>
                  Inr (print_results (check_build_artifacts fs (check_app_files fs a5)))))"

section \<open>The program\<close>

text \<open>
  The world of one run of the program: the file system, the lines still to be read from
  standard input, and what has been written to standard output, each call of \<open>print\<close>
  and each prompt of \<open>input\<close> being one event.
\<close>

datatype event = Printed string | Prompted string

record world =
  w_fs :: filesystem
  w_stdin :: "string list"
  w_stdout :: "event list"

text \<open>\<open>input(prompt)\<close>: writes the prompt, then reads a line or raises \<open>EOFError\<close>.\<close>

definition py_input :: "string \<Rightarrow> world \<Rightarrow> (py_exception + string) \<times> world" where
  "py_input prompt w =
     (let w1 = w\<lparr>w_stdout := w_stdout w @ [Prompted prompt]\<rparr> in
      case w_stdin w of
        [] \<Rightarrow> (Inl EOFError, w1)
      | l # ls \<Rightarrow> (Inr l, w1\<lparr>w_stdin := ls\<rparr>))"

definition emit :: "string list \<Rightarrow> world \<Rightarrow> world" where
  "emit ls w = w\<lparr>w_stdout := w_stdout w @ map Printed ls\<rparr>"

definition path_error :: "string \<Rightarrow> string" where
  "path_error given =
     cross @ '' Error: Path '' @ [SQ] @ given @ [SQ] @ '' does not exist''"

text \<open>
  \<open>main\<close>, given \<open>sys.argv\<close>: the exception that left it, or the analyzer it ran
  (\<open>None\<close> when it returned before making one), and the world after the run.
\<close>

definition main :: "string list \<Rightarrow> world \<Rightarrow> (py_exception + analyzer option) \<times> world" where
  "main argv w =
     (case (if 1 < length argv then (Inr (argv ! 1), w)
            else py_input ''Enter path to Avalonia project directory: '' w) of
        (Inl e, w1) \<Rightarrow> (Inl e, w1)
      | (Inr given, w1) \<Rightarrow>
          if \<not> os_path_exists (w_fs w1) given
          then (Inr None, emit [path_error given] w1)
          else (case analyze (w_fs w1) (AvaloniaProjectAnalyzer given) of
                  Inl (e, a) \<Rightarrow> (Inl e, emit (printed a) w1)
                | Inr a \<Rightarrow> (Inr (Some a), emit (printed a) w1)))"

section \<open>Example projects\<close>

text \<open>Small file systems on which the theorems below are instantiated.\<close>

definition plain_file :: "string \<Rightarrow> node" where
  "plain_file s =
     File \<lparr>file_text = Inr s, file_xml = Inl (ParseError ''syntax error: line 1, column 0'')\<rparr>"

definition empty_project :: filesystem where
  "empty_project = \<lparr>fs_root = Dir [(''proj'', Dir [])], cwd = []\<rparr>"

definition blank_view :: filesystem where
  "blank_view = \<lparr>fs_root = Dir [(''proj'', Dir [(''View.axaml'', plain_file ''  '')])], cwd = []\<rparr>"

definition typo_view :: filesystem where
  \<open>typo_view =
     \<lparr>fs_root = Dir [(''proj'', Dir [(''View.axaml'',
         plain_file (''<Window>'' @ [NL] @ ''<Grid ColumnDefinin="*"/>''))])],
      cwd = []\<rparr>\<close>

definition rootless_view :: filesystem where
  "rootless_view =
     \<lparr>fs_root = Dir [(''proj'', Dir [(''View.axaml'', plain_file ''ColumnDefinin'')])],
      cwd = []\<rparr>"

definition padding_view :: filesystem where
  \<open>padding_view =
     \<lparr>fs_root = Dir [(''proj'', Dir [(''View.axaml'',
         plain_file (''<Window>'' @ [NL] @ ''<StackPanel Padding="5"/>'' @ [NL] @ ''</Window>''))])],
      cwd = []\<rparr>\<close>

definition bare_root :: element where
  "bare_root =
     Element ''Project'' [] None
       [Element ''ItemGroup'' [] None
          [Element ''PackageReference'' [(''Include'', ''Serilog'')] None []]]"

definition serilog_project :: filesystem where
  \<open>serilog_project =
     \<lparr>fs_root = Dir [(''proj'', Dir [(''App.csproj'',
         File \<lparr>file_text = Inr ''<Project><ItemGroup><PackageReference Include="Serilog" /></ItemGroup></Project>'',
               file_xml = Inr bare_root\<rparr>)])],
      cwd = []\<rparr>\<close>


definition image_source_app :: filesystem where
  \<open>image_source_app =
     \<lparr>fs_root = Dir [(''proj'', Dir
        [(''App.axaml'', plain_file
            (''<Application>'' @ [NL]
             @ ''<StyleInclude Source="Styles/A.axaml"/>'' @ [NL]
             @ ''<Image Source="logo.png"/>'' @ [NL]
             @ ''</Application>'')),
         (''Styles'', Dir [(''A.axaml'', plain_file ''<Styles/>'')])])],
      cwd = []\<rparr>\<close>

definition no_token_app :: filesystem where
  \<open>no_token_app =
     \<lparr>fs_root = Dir [(''proj'', Dir
        [(''App.axaml'', plain_file
            (''<Application><Image Source="logo.png"/></Application>''))])],
      cwd = []\<rparr>\<close>


definition decode_error :: py_exception where
  "decode_error =
     UnicodeDecodeError ([SQ] @ ''utf-8'' @ [SQ]
       @ '' codec can't decode byte 0xff in position 0: invalid start byte'')"

definition undecodable_app :: filesystem where
  "undecodable_app =
     \<lparr>fs_root = Dir [(''proj'', Dir
        [(''App.axaml'',
          File \<lparr>file_text = Inl decode_error,
                file_xml = Inl (ParseError ''not well-formed (invalid token): line 1, column 0'')\<rparr>),
         (''Styles'', Dir [])])],
      cwd = []\<rparr>"

definition unreadable_csproj :: filesystem where
  "unreadable_csproj =
     \<lparr>fs_root = Dir [(''proj'', Dir
        [(''App.csproj'',
          File \<lparr>file_text = Inl (OSError (''[Errno 13] Permission denied: ''
                                       @ [SQ] @ ''/proj/App.csproj'' @ [SQ])),
                file_xml = Inl (OSError (''[Errno 13] Permission denied: ''
                                       @ [SQ] @ ''/proj/App.csproj'' @ [SQ]))\<rparr>)])],
      cwd = []\<rparr>"

section \<open>Facts about strings and the line lookup\<close>

lemma startswith_iff: "startswith s p \<longleftrightarrow> (\<exists>t. s = p @ t)"
  by (induction s p rule: startswith.induct) auto

lemma str_in_Nil [simp]: "str_in [] h"
  by (cases h) auto

lemma str_in_iff: "str_in n h \<longleftrightarrow> (\<exists>pre suf. h = pre @ n @ suf)"
proof (induction h)
  case Nil
  then show ?case by auto
next
  case (Cons c cs)
  show ?case
  proof
    assume "str_in n (c # cs)"
    then consider "startswith (c # cs) n" | "str_in n cs" by auto
    then show "\<exists>pre suf. c # cs = pre @ n @ suf"
    proof cases
      case 1
      then obtain t where "c # cs = n @ t" by (auto simp: startswith_iff)
      then have "c # cs = [] @ n @ t" by simp
      then show ?thesis by blast
    next
      case 2
      then obtain pre suf where "cs = pre @ n @ suf" using Cons.IH by auto
      then have "c # cs = (c # pre) @ n @ suf" by simp
      then show ?thesis by blast
    qed
  next
    assume "\<exists>pre suf. c # cs = pre @ n @ suf"
    then obtain pre suf where eq: "c # cs = pre @ n @ suf" by auto
    show "str_in n (c # cs)"
    proof (cases pre)
      case Nil
      then have "startswith (c # cs) n" using eq by (auto simp: startswith_iff)
      then show ?thesis by simp
    next
      case (Cons p ps)
      then have "cs = ps @ n @ suf" using eq by simp
      then have "str_in n cs" using Cons.IH by blast
      then show ?thesis by simp
    qed
  qed
qed

lemma str_in_append: "str_in n (pre @ n @ suf)"
  by (auto simp: str_in_iff)

lemma split_char_hd: "split_char sep s = takeWhile (\<lambda>x. x \<noteq> sep) s # tl (split_char sep s)"
  by (induction s) (auto split: list.splits)

lemma split_char_not_Nil: "split_char sep s \<noteq> []"
  by (induction s) (auto split: list.splits)

lemma startswith_takeWhile:
  "startswith s t \<Longrightarrow> sep \<notin> set t \<Longrightarrow> startswith (takeWhile (\<lambda>x. x \<noteq> sep) s) t"
  by (induction s t rule: startswith.induct) auto

lemma str_in_Cons: "str_in t l \<Longrightarrow> str_in t (c # l)"
  by simp

lemma str_in_some_line:
  "str_in t s \<Longrightarrow> sep \<notin> set t \<Longrightarrow> \<exists>l \<in> set (split_char sep s). str_in t l"
proof (induction s)
  case Nil
  then show ?case by simp
next
  case (Cons c cs)
  from Cons.prems(1) consider "startswith (c # cs) t" | "str_in t cs" by auto
  then show ?case
  proof cases
    case 1
    have "startswith (takeWhile (\<lambda>x. x \<noteq> sep) (c # cs)) t"
      using startswith_takeWhile [OF 1 Cons.prems(2)] .
    then have "str_in t (takeWhile (\<lambda>x. x \<noteq> sep) (c # cs))"
      by (cases "takeWhile (\<lambda>x. x \<noteq> sep) (c # cs)") (auto simp: startswith_iff)
    moreover have "takeWhile (\<lambda>x. x \<noteq> sep) (c # cs) \<in> set (split_char sep (c # cs))"
    proof -
      have "split_char sep (c # cs)
            = takeWhile (\<lambda>x. x \<noteq> sep) (c # cs) # tl (split_char sep (c # cs))"
        by (rule split_char_hd)
      then show ?thesis by (metis list.set_intros(1))
    qed
    ultimately show ?thesis by blast
  next
    case 2
    then obtain l where l: "l \<in> set (split_char sep cs)" "str_in t l"
      using Cons.IH Cons.prems(2) by blast
    show ?thesis
    proof (cases "c = sep")
      case True
      then show ?thesis using l by auto
    next
      case False
      obtain l0 ls where sp: "split_char sep cs = l0 # ls"
        using split_char_not_Nil by (cases "split_char sep cs") auto
      then have "split_char sep (c # cs) = (c # l0) # ls" using False by simp
      moreover have "l = l0 \<or> l \<in> set ls" using l sp by auto
      ultimately show ?thesis using l(2) by auto
    qed
  qed
qed

lemma find_line_from_none:
  "\<forall>l \<in> set ls. \<not> str_in t l \<Longrightarrow> find_line_from i ls t = 0"
  by (induction ls arbitrary: i) auto

lemma find_line_from_some:
  "\<exists>l \<in> set ls. str_in t l \<Longrightarrow>
   find_line_from i ls t = i + length (takeWhile (\<lambda>l. \<not> str_in t l) ls)"
proof (induction ls arbitrary: i)
  case Nil
  then show ?case by simp
next
  case (Cons a ls)
  show ?case
  proof (cases "str_in t a")
    case True
    then show ?thesis by simp
  next
    case False
    then have "\<exists>l \<in> set ls. str_in t l" using Cons.prems by auto
    then have "find_line_from (Suc i) ls t
               = Suc i + length (takeWhile (\<lambda>l. \<not> str_in t l) ls)"
      by (rule Cons.IH)
    then show ?thesis using False by simp
  qed
qed

lemma first_hit:
  "\<exists>l \<in> set ls. P l \<Longrightarrow>
   length (takeWhile (\<lambda>l. \<not> P l) ls) < length ls
   \<and> P (ls ! length (takeWhile (\<lambda>l. \<not> P l) ls))
   \<and> (\<forall>j < length (takeWhile (\<lambda>l. \<not> P l) ls). \<not> P (ls ! j))"
proof (induction ls)
  case Nil
  then show ?case by simp
next
  case (Cons a ls)
  show ?case
  proof (cases "P a")
    case True
    then show ?thesis by simp
  next
    case False
    then have "\<exists>l \<in> set ls. P l" using Cons.prems by auto
    from Cons.IH [OF this] show ?thesis using False
      by (auto simp: nth_Cons split: nat.splits)
  qed
qed

lemma find_line_from_first:
  assumes "\<exists>l \<in> set ls. str_in t l"
  shows "1 \<le> find_line_from 1 ls t \<and> find_line_from 1 ls t \<le> length ls
         \<and> str_in t (ls ! (find_line_from 1 ls t - 1))
         \<and> (\<forall>j < find_line_from 1 ls t - 1. \<not> str_in t (ls ! j))"
  using first_hit [of ls "str_in t", OF assms] find_line_from_some [OF assms, of 1]
  by simp

section \<open>Facts about the finding lists\<close>

lemma project_path_add [simp]:
  "project_path (add_issue m a) = project_path a"
  "project_path (add_warning m a) = project_path a"
  "project_path (add_info m a) = project_path a"
  "project_path (py_print m a) = project_path a"
  by (simp_all add: add_issue_def add_warning_def add_info_def py_print_def)

lemma issues_add [simp]:
  "issues (add_issue m a) = issues a @ [m]"
  "issues (add_warning m a) = issues a"
  "issues (add_info m a) = issues a"
  "issues (py_print m a) = issues a"
  by (simp_all add: add_issue_def add_warning_def add_info_def py_print_def)

lemma check_required_file_missing:
  "glob fs (project_path a) pattern = [] \<Longrightarrow>
   check_required_file fs a pattern = add_issue (''Missing required file: '' @ pattern) a"
  by (simp add: check_required_file_def)

section \<open>The structure check\<close>

text \<open>
  C4. When none of the required patterns \<open>*.csproj\<close>, \<open>App.axaml\<close> and \<open>App.axaml.cs\<close>
  matches an entry of the project root, \<open>check_project_structure\<close> appends exactly one
  issue for each of them, in the order of the list \<open>required_files\<close>, and no other issue.
\<close>

theorem structure_check_all_missing:
  assumes "\<forall>pattern \<in> set required_files. glob fs (project_path a) pattern = []"
  shows "issues (check_project_structure fs a)
         = issues a @ map (\<lambda>pattern. ''Missing required file: '' @ pattern) required_files"
proof -
  have g: "glob fs (project_path a) ''*.csproj'' = []"
          "glob fs (project_path a) ''App.axaml'' = []"
          "glob fs (project_path a) ''App.axaml.cs'' = []"
    using assms by (simp_all add: required_files_def)
  have "foldl (check_required_file fs) (py_print m a) required_files
        = add_issue (''Missing required file: '' @ ''App.axaml.cs'')
            (add_issue (''Missing required file: '' @ ''App.axaml'')
              (add_issue (''Missing required file: '' @ ''*.csproj'') (py_print m a)))" for m
    using g by (simp add: required_files_def check_required_file_missing)
  then show ?thesis
    by (simp add: check_project_structure_def Let_def required_files_def)
qed

theorem structure_check_all_missing_witness:
  "glob empty_project (project_path (AvaloniaProjectAnalyzer ''/proj'')) ''*.csproj'' = []
   \<and> glob empty_project (project_path (AvaloniaProjectAnalyzer ''/proj'')) ''App.axaml'' = []
   \<and> glob empty_project (project_path (AvaloniaProjectAnalyzer ''/proj'')) ''App.axaml.cs'' = []
   \<and> issues (check_project_structure empty_project (AvaloniaProjectAnalyzer ''/proj''))
       = [''Missing required file: *.csproj'', ''Missing required file: App.axaml'',
          ''Missing required file: App.axaml.cs'']"
proof -
  have g: "glob empty_project (project_path (AvaloniaProjectAnalyzer ''/proj'')) pattern = []"
    for pattern
    by (simp add: glob_def stat_def empty_project_def AvaloniaProjectAnalyzer_def Path_def)
  have "\<forall>pattern \<in> set required_files.
          glob empty_project (project_path (AvaloniaProjectAnalyzer ''/proj'')) pattern = []"
    using g by simp
  from structure_check_all_missing [OF this] g show ?thesis
    by (simp add: required_files_def AvaloniaProjectAnalyzer_def)
qed

section \<open>The markup check\<close>

text \<open>
  C10. For a markup file whose text is empty or only whitespace, or whose stripped text
  does not start with \<open><\<close>, \<open>check_single_xaml_file\<close> appends exactly one issue for the
  file and returns: the analyzer is otherwise unchanged, so none of the misspelling,
  unsupported-attribute and \<open>x:Class\<close> checks has added a finding.
\<close>

theorem markup_check_rejects_without_root:
  assumes "read_text fs xaml_file = Inr content"
      and "strip content = [] \<or> \<not> startswith (strip content) ''<''"
  shows "check_single_xaml_file fs xaml_file a
         = a\<lparr>issues := issues a
               @ [path_name xaml_file
                  @ (if strip content = [] then '': File is empty'' else '': No root element'')]\<rparr>"
  using assms by (auto simp: check_single_xaml_file_def add_issue_def)

theorem markup_check_rejects_without_root_witness:
  "read_text blank_view (Path ''/proj/View.axaml'') = Inr ''  ''
   \<and> strip ''  '' = []
   \<and> check_single_xaml_file blank_view (Path ''/proj/View.axaml'') (AvaloniaProjectAnalyzer ''/proj'')
       = (AvaloniaProjectAnalyzer ''/proj'')\<lparr>issues := [''View.axaml: File is empty'']\<rparr>"
proof -
  have r: "read_text blank_view (Path ''/proj/View.axaml'') = Inr ''  ''"
    by (simp add: read_text_def stat_def blank_view_def Path_def plain_file_def)
  have s: "strip ''  '' = []"
    by (simp add: strip_def is_space1_def)
  have n: "path_name (Path ''/proj/View.axaml'') = ''View.axaml''"
    by (simp add: path_name_def Path_def)
  from markup_check_rejects_without_root [OF r, of "AvaloniaProjectAnalyzer ''/proj''"] s r n
  show ?thesis by (simp add: AvaloniaProjectAnalyzer_def)
qed

lemma issues_check_typos:
  "issues (foldl (check_typo name content) a ts)
   = issues a @ map (\<lambda>t. typo_issue name (find_line_number content (fst t)) (fst t) (snd t))
                  (filter (\<lambda>t. str_in (fst t) content) ts)"
proof (induction ts arbitrary: a)
  case Nil
  then show ?case by simp
next
  case (Cons t ts)
  have step: "issues (check_typo name content a t)
              = issues a @ (if str_in (fst t) content
                            then [typo_issue name (find_line_number content (fst t)) (fst t) (snd t)]
                            else [])"
    by (simp add: check_typo_def)
  have "issues (foldl (check_typo name content) a (t # ts))
        = issues (foldl (check_typo name content) (check_typo name content a t) ts)"
    by simp
  also have "\<dots> = issues (check_typo name content a t)
               @ map (\<lambda>t. typo_issue name (find_line_number content (fst t)) (fst t) (snd t))
                   (filter (\<lambda>t. str_in (fst t) content) ts)"
    by (rule Cons.IH)
  finally show ?case using step by simp
qed

lemma issues_check_unsupported_prop:
  "set (issues a) \<subseteq> set (issues (check_unsupported_prop name content a prop))"
  by (auto simp: check_unsupported_prop_def Let_def)

lemma issues_check_unsupported_props:
  "set (issues a) \<subseteq> set (issues (foldl (check_unsupported_prop name content) a ps))"
proof (induction ps arbitrary: a)
  case Nil
  then show ?case by simp
next
  case (Cons p ps)
  have "set (issues a) \<subseteq> set (issues (check_unsupported_prop name content a p))"
    by (rule issues_check_unsupported_prop)
  also have "\<dots> \<subseteq> set (issues (foldl (check_unsupported_prop name content)
                 (check_unsupported_prop name content a p) ps))"
    by (rule Cons.IH)
  finally show ?case by simp
qed

lemma issues_check_x_class:
  "set (issues a) \<subseteq> set (issues (check_x_class xaml_file content a))"
  by (auto simp: check_x_class_def Let_def split: option.splits sum.splits)

lemma typos_one_line: "(typo, correct) \<in> set typos \<Longrightarrow> NL \<notin> set typo"
  by (auto simp: typos_def NL_def)

lemma find_line_number_spec:
  "if \<exists>l \<in> set (split_char NL s). str_in t l
   then 1 \<le> find_line_number s t \<and> find_line_number s t \<le> length (split_char NL s)
        \<and> str_in t (split_char NL s ! (find_line_number s t - 1))
        \<and> (\<forall>j < find_line_number s t - 1. \<not> str_in t (split_char NL s ! j))
   else find_line_number s t = 0"
  using find_line_from_first [of "split_char NL s" t] find_line_from_none [of "split_char NL s" t 1]
  by (auto simp: find_line_number_def)

lemma typo_view_read:
  \<open>read_text typo_view (Path ''/proj/View.axaml'')
   = Inr (''<Window>'' @ [NL] @ ''<Grid ColumnDefinin="*"/>'')\<close>
  by (simp add: read_text_def stat_def typo_view_def Path_def plain_file_def)

lemma typo_view_line:
  \<open>find_line_number (''<Window>'' @ [NL] @ ''<Grid ColumnDefinin="*"/>'') ''ColumnDefinin'' = 2\<close>
  by code_simp

lemma typo_view_strip:
  \<open>strip (''<Window>'' @ [NL] @ ''<Grid ColumnDefinin="*"/>'') = ''<Window>'' @ [NL] @ ''<Grid ColumnDefinin="*"/>''\<close>
  by code_simp

lemma typo_view_in:
  \<open>str_in ''ColumnDefinin'' (''<Window>'' @ [NL] @ ''<Grid ColumnDefinin="*"/>'')\<close>
  by code_simp

lemma rootless_view_read:
  "read_text rootless_view (Path ''/proj/View.axaml'') = Inr ''ColumnDefinin''"
  by (simp add: read_text_def stat_def rootless_view_def Path_def plain_file_def)

lemma rootless_strip: "strip ''ColumnDefinin'' = ''ColumnDefinin''"
  by code_simp

lemma padding_view_read:
  \<open>read_text padding_view (Path ''/proj/View.axaml'')
   = Inr (''<Window>'' @ [NL] @ ''<StackPanel Padding="5"/>'' @ [NL] @ ''</Window>'')\<close>
  by (simp add: read_text_def stat_def padding_view_def Path_def plain_file_def)

text \<open>
  C3 (amended). For a markup file whose stripped text starts with \<open><\<close> and whose text
  contains one of the misspelled tokens of \<open>typos\<close>, \<open>check_single_xaml_file\<close> leaves an
  issue that contains the corrected spelling and the number of the first line that
  contains the token, counted from one. \<open>find_line_number\<close> returns the number of the
  first line that contains the search term, counted from one, and 0 when no line does.
\<close>

theorem markup_check_reports_typo:
  assumes "read_text fs xaml_file = Inr content"
      and "startswith (strip content) ''<''"
      and "(typo, correct) \<in> set typos"
      and "str_in typo content"
  shows "typo_issue (path_name xaml_file) (find_line_number content typo) typo correct
           \<in> set (issues (check_single_xaml_file fs xaml_file a))
         \<and> str_in correct
             (typo_issue (path_name xaml_file) (find_line_number content typo) typo correct)
         \<and> str_in (str_nat (find_line_number content typo))
             (typo_issue (path_name xaml_file) (find_line_number content typo) typo correct)
         \<and> 1 \<le> find_line_number content typo
         \<and> find_line_number content typo \<le> length (split_char NL content)
         \<and> str_in typo (split_char NL content ! (find_line_number content typo - 1))
         \<and> (\<forall>j < find_line_number content typo - 1. \<not> str_in typo (split_char NL content ! j))
         \<and> (if \<exists>l \<in> set (split_char NL s). str_in t l
             then 1 \<le> find_line_number s t \<and> find_line_number s t \<le> length (split_char NL s)
                  \<and> str_in t (split_char NL s ! (find_line_number s t - 1))
                  \<and> (\<forall>j < find_line_number s t - 1. \<not> str_in t (split_char NL s ! j))
             else find_line_number s t = 0)"
proof -
  let ?name = "path_name xaml_file"
  let ?issue = "typo_issue ?name (find_line_number content typo) typo correct"
  have nonempty: "strip content \<noteq> []"
    using assms(2) by (cases "strip content") auto
  have "?issue \<in> set (issues (foldl (check_typo ?name content) a typos))"
    using assms(3,4)
    by (auto simp: issues_check_typos intro!: image_eqI [where x = "(typo, correct)"])
  then have "?issue \<in> set (issues (foldl (check_unsupported_prop ?name content)
                (foldl (check_typo ?name content) a typos) unsupported_props))"
    using issues_check_unsupported_props by blast
  then have "?issue \<in> set (issues (check_x_class xaml_file content
                (foldl (check_unsupported_prop ?name content)
                   (foldl (check_typo ?name content) a typos) unsupported_props)))"
    using issues_check_x_class by blast
  then have reported: "?issue \<in> set (issues (check_single_xaml_file fs xaml_file a))"
    using assms(1,2) nonempty by (simp add: check_single_xaml_file_def Let_def)
  have c1: "str_in correct ?issue"
  proof -
    have "?issue = (?name @ '':'' @ str_nat (find_line_number content typo) @ '': Found ''
                    @ [SQ] @ typo @ [SQ] @ '' (should be '' @ [SQ]) @ correct @ ([SQ] @ '')'')"
      by (simp add: typo_issue_def)
    then show ?thesis by (simp only: str_in_append)
  qed
  have c2: "str_in (str_nat (find_line_number content typo)) ?issue"
  proof -
    have "?issue = (?name @ '':'') @ str_nat (find_line_number content typo)
                    @ ('': Found '' @ [SQ] @ typo @ [SQ] @ '' (should be '' @ [SQ] @ correct
                       @ [SQ] @ '')'')"
      by (simp add: typo_issue_def)
    then show ?thesis by (simp only: str_in_append)
  qed
  have "\<exists>l \<in> set (split_char NL content). str_in typo l"
    using str_in_some_line [OF assms(4) typos_one_line [OF assms(3)]] .
  then have line: "1 \<le> find_line_number content typo
         \<and> find_line_number content typo \<le> length (split_char NL content)
         \<and> str_in typo (split_char NL content ! (find_line_number content typo - 1))
         \<and> (\<forall>j < find_line_number content typo - 1. \<not> str_in typo (split_char NL content ! j))"
    using find_line_number_spec [of content typo] by simp
  show ?thesis using reported c1 c2 line find_line_number_spec [of s t] by simp
qed

theorem markup_check_reports_typo_witness:
  \<open>read_text typo_view (Path ''/proj/View.axaml'')
     = Inr (''<Window>'' @ [NL] @ ''<Grid ColumnDefinin="*"/>'')
   \<and> startswith (strip (''<Window>'' @ [NL] @ ''<Grid ColumnDefinin="*"/>'')) ''<''
   \<and> (''ColumnDefinin'', ''ColumnDefinitions'') \<in> set typos
   \<and> str_in ''ColumnDefinin'' (''<Window>'' @ [NL] @ ''<Grid ColumnDefinin="*"/>'')
   \<and> ''View.axaml:2: Found '' @ [SQ] @ ''ColumnDefinin'' @ [SQ] @ '' (should be ''
         @ [SQ] @ ''ColumnDefinitions'' @ [SQ] @ '')''
       \<in> set (issues (check_single_xaml_file typo_view (Path ''/proj/View.axaml'')
                        (AvaloniaProjectAnalyzer ''/proj'')))
   \<and> find_line_number (''<Window>'' @ [NL] @ ''<Grid ColumnDefinin="*"/>'') ''ColumnDefinin'' = 2\<close>
proof -
  let ?content = \<open>''<Window>'' @ [NL] @ ''<Grid ColumnDefinin="*"/>''\<close>
  have h1: "read_text typo_view (Path ''/proj/View.axaml'') = Inr ?content"
    by (rule typo_view_read)
  have h2: "startswith (strip ?content) ''<''"
    by (simp only: typo_view_strip) simp
  have h3: "(''ColumnDefinin'', ''ColumnDefinitions'') \<in> set typos"
    by (simp add: typos_def)
  have h4: "str_in ''ColumnDefinin'' ?content"
    by (rule typo_view_in)
  have n: "path_name (Path ''/proj/View.axaml'') = ''View.axaml''"
    by (simp add: path_name_def Path_def)
  have two: "str_nat 2 = ''2''"
    by code_simp
  from markup_check_reports_typo [OF h1 h2 h3 h4, of "AvaloniaProjectAnalyzer ''/proj''"]
  have "typo_issue ''View.axaml'' 2 ''ColumnDefinin'' ''ColumnDefinitions''
          \<in> set (issues (check_single_xaml_file typo_view (Path ''/proj/View.axaml'')
                           (AvaloniaProjectAnalyzer ''/proj'')))"
    by (simp only: n typo_view_line) 
  then show ?thesis using h1 h2 h3 h4 typo_view_line
    by (simp add: typo_issue_def two)
qed

text \<open>
  The claim C3 as it was stated, for every non-empty markup file: a file whose text is
  the token alone is not empty, yet its only issue is the missing root element.
\<close>

theorem markup_typo_without_root_counterexample:
  "read_text rootless_view (Path ''/proj/View.axaml'') = Inr ''ColumnDefinin''
   \<and> strip ''ColumnDefinin'' \<noteq> []
   \<and> str_in ''ColumnDefinin'' ''ColumnDefinin''
   \<and> issues (check_single_xaml_file rootless_view (Path ''/proj/View.axaml'')
               (AvaloniaProjectAnalyzer ''/proj''))
       = [''View.axaml: No root element'']"
proof -
  have n: "path_name (Path ''/proj/View.axaml'') = ''View.axaml''"
    by (simp add: path_name_def Path_def)
  have i: "str_in ''ColumnDefinin'' ''ColumnDefinin''"
    by code_simp
  show ?thesis
    by (simp add: check_single_xaml_file_def rootless_view_read rootless_strip n i
          AvaloniaProjectAnalyzer_def)
qed

text \<open>
  C2. A \<open>StackPanel\<close> with a \<open>Padding\<close> attribute on the second line of a file: the
  issue is appended and names the attribute, but the line number in it is 0, because
  \<open>find_line_number\<close> is given the text of the regular expression and looks for it as
  a substring of each line.
\<close>

theorem stackpanel_padding_reported_at_line_zero:
  \<open>read_text padding_view (Path ''/proj/View.axaml'')
     = Inr (''<Window>'' @ [NL] @ ''<StackPanel Padding="5"/>'' @ [NL] @ ''</Window>'')
   \<and> split_char NL (''<Window>'' @ [NL] @ ''<StackPanel Padding="5"/>'' @ [NL] @ ''</Window>'') ! 1
       = ''<StackPanel Padding="5"/>''
   \<and> issues (check_single_xaml_file padding_view (Path ''/proj/View.axaml'')
               (AvaloniaProjectAnalyzer ''/proj''))
       = [''View.axaml:0: StackPanel doesn't support Padding (use Border instead)'']\<close>
proof -
  have l: \<open>split_char NL (''<Window>'' @ [NL] @ ''<StackPanel Padding="5"/>'' @ [NL] @ ''</Window>'') ! 1
           = ''<StackPanel Padding="5"/>''\<close>
    by code_simp
  have i: \<open>issues (check_single_xaml_file padding_view (Path ''/proj/View.axaml'')
                     (AvaloniaProjectAnalyzer ''/proj''))
           = [''View.axaml:0: StackPanel doesn't support Padding (use Border instead)'']\<close>
    by code_simp
  show ?thesis using padding_view_read l i by simp
qed

section \<open>The descriptor check\<close>

lemma children_in_descendants:
  "set (elem_children e) \<subseteq> set (descendants e)"
  by (cases e) auto

lemma descendants_closed:
  "d \<in> set (descendants e) \<Longrightarrow> set (descendants d) \<subseteq> set (descendants e)"
proof (induction e arbitrary: d)
  case (Element t a x cs)
  from Element.prems obtain c where c: "c \<in> set cs" "d = c \<or> d \<in> set (descendants c)"
    by auto
  have "set (descendants d) \<subseteq> set (descendants c)"
    using c(2) Element.IH [OF c(1)] by auto
  then show ?case using c(1) by auto
qed

lemma children_of_descendant:
  "d \<in> set (descendants e) \<Longrightarrow> c \<in> set (elem_children d) \<Longrightarrow> c \<in> set (descendants e)"
  using descendants_closed children_in_descendants by blast

lemma avalonia_packages_empty:
  assumes "\<forall>e \<in> set (descendants root).
             elem_tag e = ''PackageReference''
             \<longrightarrow> \<not> str_in ''Avalonia'' (elem_get e ''Include'' [])"
  shows "avalonia_packages root = []"
proof -
  have "filter (\<lambda>package_ref. str_in ''Avalonia'' (elem_get package_ref ''Include'' []))
          (findall_children item_group ''PackageReference'') = []"
    if "item_group \<in> set (findall_descendants root ''ItemGroup'')" for item_group
  proof -
    have ig: "item_group \<in> set (descendants root)"
      using that by (simp add: findall_descendants_def)
    have "\<not> str_in ''Avalonia'' (elem_get c ''Include'' [])"
      if "c \<in> set (findall_children item_group ''PackageReference'')" for c
    proof -
      have "c \<in> set (elem_children item_group)" "elem_tag c = ''PackageReference''"
        using that by (simp_all add: findall_children_def)
      then show ?thesis using assms children_of_descendant [OF ig] by blast
    qed
    then show ?thesis by (simp add: filter_empty_conv)
  qed
  then show ?thesis by (simp add: avalonia_packages_def)
qed

text \<open>
  C5. When the first \<open>*.csproj\<close> entry of the project root parses as XML and no
  \<open>PackageReference\<close> element below its root has an \<open>Include\<close> attribute that contains
  \<open>Avalonia\<close>, \<open>check_csproj_file\<close> returns normally (no exception leaves it) and
  appends the issue that no Avalonia packages were found, followed only by the issue
  about \<open>UseAvalonia\<close> when that element is present with another text than \<open>true\<close>.
\<close>

theorem descriptor_check_no_packages:
  assumes "glob fs (project_path a) ''*.csproj'' = csproj_path # others"
      and "et_parse fs csproj_path = Inr root"
      and "\<forall>e \<in> set (descendants root).
             elem_tag e = ''PackageReference''
             \<longrightarrow> \<not> str_in ''Avalonia'' (elem_get e ''Include'' [])"
  shows "\<exists>a'. check_csproj_file fs a = Inr a'
           \<and> issues a'
              = issues a @ [''No Avalonia packages found in project file'']
                @ (case find_descendant root ''UseAvalonia'' of
                     None \<Rightarrow> []
                   | Some use_avalonia \<Rightarrow>
                       if elem_text use_avalonia \<noteq> Some ''true''
                       then [''UseAvalonia property is not set to true'']
                       else [])"
  using assms(1,2) avalonia_packages_empty [OF assms(3)]
  by (simp add: check_csproj_file_def Let_def split: option.splits)

theorem descriptor_check_no_packages_witness:
  "glob serilog_project (project_path (AvaloniaProjectAnalyzer ''/proj'')) ''*.csproj''
     = [Path ''/proj/App.csproj'']
   \<and> et_parse serilog_project (Path ''/proj/App.csproj'') = Inr bare_root
   \<and> descendants bare_root
      = [Element ''ItemGroup'' [] None
           [Element ''PackageReference'' [(''Include'', ''Serilog'')] None []],
         Element ''PackageReference'' [(''Include'', ''Serilog'')] None []]
   \<and> \<not> str_in ''Avalonia'' ''Serilog''
   \<and> (\<exists>a'. check_csproj_file serilog_project (AvaloniaProjectAnalyzer ''/proj'') = Inr a'
          \<and> issues a' = [''No Avalonia packages found in project file''])"
proof -
  have g: "glob serilog_project (project_path (AvaloniaProjectAnalyzer ''/proj'')) ''*.csproj''
           = Path ''/proj/App.csproj'' # []"
    by code_simp
  have p: "et_parse serilog_project (Path ''/proj/App.csproj'') = Inr bare_root"
    by (simp add: et_parse_def stat_def serilog_project_def Path_def)
  have d: "descendants bare_root
      = [Element ''ItemGroup'' [] None
           [Element ''PackageReference'' [(''Include'', ''Serilog'')] None []],
         Element ''PackageReference'' [(''Include'', ''Serilog'')] None []]"
    by (simp add: bare_root_def)
  have s: "\<not> str_in ''Avalonia'' ''Serilog''"
    by code_simp
  have h: "\<forall>e \<in> set (descendants bare_root).
             elem_tag e = ''PackageReference''
             \<longrightarrow> \<not> str_in ''Avalonia'' (elem_get e ''Include'' [])"
    using s by (simp add: d elem_get_def)
  have u: "find_descendant bare_root ''UseAvalonia'' = None"
    by (simp add: find_descendant_def findall_descendants_def d)
  from descriptor_check_no_packages [OF g p h] g p d s u
  show ?thesis by (simp add: AvaloniaProjectAnalyzer_def)
qed

section \<open>The program's runs\<close>









section \<open>The application-file check\<close>

lemma check_style_include_path [simp]:
  "project_path (check_style_include fs a sp) = project_path a"
  by (simp add: check_style_include_def)


lemma path_check_style_includes [simp]:
  "project_path (foldl (check_style_include fs) a sps) = project_path a"
  by (induction sps arbitrary: a) simp_all

lemma check_app_xaml_path [simp]:
  "project_path (check_app_xaml fs a) = project_path a"
  by (simp add: check_app_xaml_def Let_def split: sum.splits)




lemma missing_style_issue_inj [simp]:
  "missing_style_issue x = missing_style_issue y \<longleftrightarrow> x = y"
  by (simp add: missing_style_issue_def)



lemma image_source_app_issues:
  \<open>issues (check_app_files image_source_app (AvaloniaProjectAnalyzer ''/proj''))
   = [''App.axaml references missing style: logo.png'', ''App.axaml.cs not found'']\<close>
  by code_simp

lemma no_token_app_issues:
  \<open>str_in ''Source="logo.png"'' ''<Application><Image Source="logo.png"/></Application>''
   \<and> \<not> exists no_token_app (joinpath (Path ''/proj'') ''logo.png'')
   \<and> issues (check_app_files no_token_app (AvaloniaProjectAnalyzer ''/proj''))
      = [''App.axaml.cs not found'']\<close>
  by code_simp







section \<open>Failures while reading a file\<close>

text \<open>
  \<open>check_single_xaml_file\<close> and \<open>check_app_files\<close> turn an exception of \<open>read_text\<close> into
  an issue that names the file and the error. \<open>check_resources\<close> reads \<open>App.axaml\<close>
  outside any \<open>try\<close>, and \<open>check_csproj_file\<close> catches \<open>ParseError\<close> only: there the
  exception leaves the method, and with it \<open>analyze\<close> and \<open>main\<close>.
\<close>

lemma markup_read_failure_is_issue:
  "read_text fs xaml_file = Inl e \<Longrightarrow>
   check_single_xaml_file fs xaml_file a
   = add_issue (path_name xaml_file @ '': Failed to read file - '' @ str_exc e) a"
  by (simp add: check_single_xaml_file_def)

lemma app_read_failure_is_issue:
  "exists fs (joinpath (project_path a) ''App.axaml'') \<Longrightarrow>
   read_text fs (joinpath (project_path a) ''App.axaml'') = Inl e \<Longrightarrow>
   check_app_xaml fs a = add_issue (''Failed to read App.axaml: '' @ str_exc e) a"
  by (simp add: check_app_xaml_def)

lemma resources_read_failure_escapes:
  "exists fs (joinpath (project_path a) ''Styles'') \<Longrightarrow>
   exists fs (joinpath (project_path a) ''App.axaml'') \<Longrightarrow>
   read_text fs (joinpath (project_path a) ''App.axaml'') = Inl e \<Longrightarrow>
   \<exists>a'. check_resources fs a = Inl (e, a')"
  by (simp add: check_resources_def Let_def)

lemma descriptor_other_failure_escapes:
  "glob fs (project_path a) ''*.csproj'' = csproj_path # others \<Longrightarrow>
   et_parse fs csproj_path = Inl e \<Longrightarrow> \<forall>m. e \<noteq> ParseError m \<Longrightarrow>
   \<exists>a'. check_csproj_file fs a = Inl (e, a')"
  by (cases e) (simp_all add: check_csproj_file_def Let_def)

lemma unreadable_csproj_aborts_audit:
  "fst (main [''analyzer.py'', ''/proj'']
          \<lparr>w_fs = unreadable_csproj, w_stdin = [], w_stdout = []\<rparr>)
     = Inl (OSError (''[Errno 13] Permission denied: '' @ [SQ] @ ''/proj/App.csproj'' @ [SQ]))"
  by code_simp

text \<open>
  C1. A project with a \<open>Styles\<close> folder and an \<open>App.axaml\<close> that is not valid UTF-8: the
  run ends with the \<open>UnicodeDecodeError\<close> raised in \<open>check_resources\<close>. The last line
  printed is the heading of the resource check; the remaining checks do not run and no
  report is printed.
\<close>

theorem undecodable_app_aborts_audit:
  "fst (main [''analyzer.py'', ''/proj'']
          \<lparr>w_fs = undecodable_app, w_stdin = [], w_stdout = []\<rparr>)
     = Inl decode_error
   \<and> w_stdout (snd (main [''analyzer.py'', ''/proj'']
                       \<lparr>w_fs = undecodable_app, w_stdin = [], w_stdout = []\<rparr>))
     = map Printed
         [magnifier @ '' AVALONIA PROJECT DIAGNOSTIC ANALYSIS'',
          replicate 60 CHR ''='',
          folder @ '' Checking project structure...'',
          wrench @ '' Checking project file...'',
          page @ '' Checking XAML files...'',
          picture @ ''  Checking resources...'']"
  by code_simp

end
